theory Spec2Isabelle
  imports Complex_Main "HOL-Library.AList"
begin

section \<open>Data model (types.ts)\<close>

text \<open>
  JavaScript numbers are modelled as follows: case numbers, scores, cutoffs and the cells
  of a confusion matrix are integers (\<open>int\<close>, so that a negative score is a value of the
  model just as it is a value of \<open>number\<close>); ratios, probabilities and reading times are
  reals. The descriptive statistics and the t-tests, whose guards compare a computed
  value with 0, take the rounding of double arithmetic as a parameter \<open>rnd\<close>: the result
  of an operation is \<open>rnd\<close> of its exact result. The other functions are in exact
  arithmetic. Numbers are finite: no \<open>NaN\<close>, no overflow.
\<close>

datatype APStage = Ta | Tis | T1 | T2 | T3 | T4

definition CVNMI_STAGES :: "APStage list" where
  "CVNMI_STAGES = [Ta, Tis, T1]"

definition CVMI_STAGES :: "APStage list" where
  "CVMI_STAGES = [T2, T3, T4]"

record CaseData =
  caseNumber :: int
  ap :: APStage
  isCVMIPositive :: bool

record User =
  id' :: string
  name :: string
  surname :: string
  experience :: string

record Evaluation =
  t2 :: int
  difusion :: int
  edc :: int
  viradsFinal :: int
  t2Confidence :: int
  difusionConfidence :: int
  edcConfidence :: int
  viradsFinalConfidence :: int
  imageQuality :: int
  readingTime :: real

record AnalysisMetrics =
  sensitivity :: real
  specificity :: real
  ppv :: real
  npv :: real

record ConfusionMatrixData =
  tp :: int
  fp :: int
  tn :: int
  fn :: int

text \<open>
  \<open>Record<number, Evaluation>\<close>: the object is modelled by the list of its entries;
  \<open>Object.keys(o).map(Number)\<close> is \<open>map fst\<close> and \<open>o[k]\<close> is \<open>map_of\<close>
  (\<open>None\<close> for \<open>undefined\<close>).
\<close>

type_synonym Evaluations = "(int \<times> Evaluation) list"

text \<open>The evaluation a case starts from in the evaluation screen: nothing scored yet.\<close>

definition DEFAULT_EVAL :: Evaluation where
  "DEFAULT_EVAL = \<lparr>t2 = 0, difusion = 0, edc = 0, viradsFinal = 0, t2Confidence = 0,
     difusionConfidence = 0, edcConfidence = 0, viradsFinalConfidence = 0,
     imageQuality = 0, readingTime = 0\<rparr>"

text \<open>The object literal built for every row by the upload screen.\<close>

definition parseCase :: "int \<Rightarrow> APStage \<Rightarrow> CaseData" where
  "parseCase n stage =
     \<lparr>caseNumber = n, ap = stage, isCVMIPositive = (stage \<in> set CVMI_STAGES)\<rparr>"

section \<open>Double arithmetic\<close>

text \<open>
  IEEE 754 binary64 rounding of a real to the nearest double, ties to even, in the normal
  range: a number in the binade from \<open>pow2 e\<close> to \<open>pow2 (e + 1)\<close> is rounded to a multiple of
  \<open>pow2 (e - 52)\<close>, where \<open>pow2 e\<close> is the power of 2 with the integer exponent \<open>e\<close>.
\<close>

definition pow2 :: "int \<Rightarrow> real" where
  "pow2 e = (if 0 \<le> e then 2 ^ nat e else 1 / 2 ^ nat (- e))"

definition roundHalfEven :: "real \<Rightarrow> int" where
  "roundHalfEven y =
     (let f = \<lfloor>y\<rfloor>; r = y - of_int f
      in if r < 1/2 then f else if 1/2 < r then f + 1 else if even f then f else f + 1)"

definition roundDouble :: "real \<Rightarrow> real" where
  "roundDouble x =
     (if x = 0 then 0
      else let e = \<lfloor>log 2 \<bar>x\<bar>\<rfloor>; ulp = pow2 (e - 52)
           in of_int (roundHalfEven (x / ulp)) * ulp)"

section \<open>Core math functions\<close>

text \<open>
  \<open>rnd\<close> rounds the result of every operation on doubles; the length of an array and
  what is computed from lengths alone are small integers and exact.
\<close>

definition mean :: "(real \<Rightarrow> real) \<Rightarrow> real list \<Rightarrow> real" where
  "mean rnd data =
     (if length data = 0 then 0
      else rnd (foldl (\<lambda>a b. rnd (a + b)) 0 data / of_nat (length data)))"

definition stdDev :: "(real \<Rightarrow> real) \<Rightarrow> real list \<Rightarrow> real" where
  "stdDev rnd data =
     (if length data < 2 then 0
      else let m = mean rnd data;
               variance = rnd (foldl (\<lambda>acc val. rnd (acc + rnd (rnd (val - m) ^ 2))) 0 data
                                / (of_nat (length data) - 1))
           in rnd (sqrt variance))"

section \<open>Gamma and beta functions\<close>

definition lanczosG :: real where
  "lanczosG = 7"

definition lanczosP :: "real list" where
  "lanczosP = [0.99999999999980993, 676.5203681218851, -1259.1392167224028,
     771.32342877765313, -176.61502916214059, 12.507343278686905,
     -0.13857109526572012, 9.9843695780195716 / 10 ^ 6, 1.5056327351493116 / 10 ^ 7]"

text \<open>
  \<open>logGamma\<close> calls itself once when \<open>x < 0.5\<close>, on \<open>1 - x\<close>, which is above \<open>0.5\<close>.
  \<open>Math.pow\<close> is \<open>powr\<close>: its base \<open>t\<close> is at least 7 in the branch that uses it.
\<close>

function logGamma :: "real \<Rightarrow> real" where
  "logGamma x =
     (if x < 0.5 then pi / (sin (pi * x) * exp (logGamma (1 - x)))
      else let x1 = x - 1;
               t0 = x1 + lanczosG + 0.5;
               a = foldl (\<lambda>a i. a + lanczosP ! i / (x1 + of_nat i)) (lanczosP ! 0)
                     [1 ..< length lanczosP]
           in ln (sqrt (2 * pi) * (t0 powr (x1 + 0.5)) * exp (- t0) * a))"
  by pat_completeness auto
termination
  by (relation "measure (\<lambda>x. if x < 0.5 then 1 else 0)") auto

definition MAXIT :: nat where
  "MAXIT = 100"

definition EPS :: real where
  "EPS = 3.0 / 10 ^ 7"

definition FPMIN :: real where
  "FPMIN = 1.0 / 10 ^ 30"

definition floorTiny :: "real \<Rightarrow> real" where
  "floorTiny d = (if \<bar>d\<bar> < FPMIN then FPMIN else d)"

text \<open>
  The \<open>for\<close> loop of \<open>betacf\<close>, from iteration \<open>m\<close> on, with the loop variables
  \<open>c\<close>, \<open>d\<close>, \<open>h\<close>; it leaves at \<open>break\<close> or when \<open>m\<close> exceeds \<open>MAXIT\<close>.
\<close>

function betacfLoop :: "real \<Rightarrow> real \<Rightarrow> real \<Rightarrow> nat \<Rightarrow> real \<Rightarrow> real \<Rightarrow> real \<Rightarrow> real" where
  "betacfLoop x a b m c d h =
     (if m \<le> MAXIT then
        let qab = a + b; qap = a + 1; qam = a - 1;
            m2 = 2 * of_nat m;
            aa = of_nat m * (b - of_nat m) * x / ((qam + m2) * (a + m2));
            d1 = floorTiny (1 + aa * d);
            c1 = floorTiny (1 + aa / c);
            d2 = 1 / d1;
            h1 = h * (d2 * c1);
            aa2 = - (a + of_nat m) * (qab + of_nat m) * x / ((a + m2) * (qap + m2));
            d3 = floorTiny (1 + aa2 * d2);
            c2 = floorTiny (1 + aa2 / c1);
            d4 = 1 / d3;
            del = d4 * c2;
            h2 = h1 * del
        in if \<bar>del - 1\<bar> < EPS then h2 else betacfLoop x a b (m + 1) c2 d4 h2
      else h)"
  by pat_completeness auto
termination
  by (relation "measure (\<lambda>(x, a, b, m, c, d, h). Suc MAXIT - m)") auto

definition betacf :: "real \<Rightarrow> real \<Rightarrow> real \<Rightarrow> real" where
  "betacf x a b =
     (let qab = a + b; qap = a + 1;
          d = 1 / floorTiny (1 - qab * x / qap)
      in betacfLoop x a b 1 1 d d)"

definition betinc :: "real \<Rightarrow> real \<Rightarrow> real \<Rightarrow> real" where
  "betinc x a b =
     (let bt = (if x = 0 \<or> x = 1 then 0
                else exp (logGamma (a + b) - logGamma a - logGamma b + a * ln x + b * ln (1 - x)))
      in if x < (a + 1) / (a + b + 2) then bt * betacf x a b / a
         else 1 - bt * betacf (1 - x) b a / b)"

section \<open>T-test implementations\<close>

text \<open>The statistic of a test is a number or \<open>Infinity\<close>.\<close>

datatype Statistic = Finite real | Infinity

record TTestResult =
  t :: Statistic
  df :: int
  p :: real

text \<open>
  \<open>None\<close> is the \<open>null\<close> of the source. The p-value is computed by \<open>betinc\<close> in exact
  arithmetic; its second argument \<open>df / 2\<close> is a multiple of one half and exact.
\<close>

definition tTestIndependent ::
    "(real \<Rightarrow> real) \<Rightarrow> real list \<Rightarrow> real list \<Rightarrow> TTestResult option" where
  "tTestIndependent rnd sample1 sample2 =
     (if length sample1 < 2 \<or> length sample2 < 2 then None
      else let n1 = int (length sample1); n2 = int (length sample2);
               mean1 = mean rnd sample1; mean2 = mean rnd sample2;
               std1 = stdDev rnd sample1; std2 = stdDev rnd sample2;
               pooledVar = rnd (rnd (rnd (of_int (n1 - 1) * rnd (std1 ^ 2))
                                       + rnd (of_int (n2 - 1) * rnd (std2 ^ 2)))
                                  / of_int (n1 + n2 - 2));
               se = rnd (sqrt (rnd (pooledVar * rnd (rnd (1 / of_int n1) + rnd (1 / of_int n2)))))
           in if se = 0 then Some \<lparr>t = Infinity, df = n1 + n2 - 2, p = 0\<rparr>
              else let t1 = rnd (rnd (mean1 - mean2) / se);
                       df1 = n1 + n2 - 2;
                       p1 = betinc (rnd (of_int df1 / rnd (of_int df1 + rnd (t1 * t1))))
                              (of_int df1 / 2) 0.5
                   in Some \<lparr>t = Finite t1, df = df1, p = p1\<rparr>)"

text \<open>
  \<open>sample1.map((d, i) => d - sample2[i])\<close>, read after the guard that the two samples
  have the same length.
\<close>

definition pairDiffs :: "(real \<Rightarrow> real) \<Rightarrow> real list \<Rightarrow> real list \<Rightarrow> real list" where
  "pairDiffs rnd sample1 sample2 = map (\<lambda>(d, e). rnd (d - e)) (zip sample1 sample2)"

definition tTestPaired ::
    "(real \<Rightarrow> real) \<Rightarrow> real list \<Rightarrow> real list \<Rightarrow> TTestResult option" where
  "tTestPaired rnd sample1 sample2 =
     (if length sample1 \<noteq> length sample2 \<or> length sample1 < 2 then None
      else let n = int (length sample1);
               diffs = pairDiffs rnd sample1 sample2;
               meanDiff = mean rnd diffs;
               stdDiff = stdDev rnd diffs
           in if stdDiff = 0 then Some \<lparr>t = Infinity, df = n - 1, p = 0\<rparr>
              else let t1 = rnd (meanDiff / rnd (stdDiff / rnd (sqrt (of_int n))));
                       df1 = n - 1;
                       p1 = betinc (rnd (of_int df1 / rnd (of_int df1 + rnd (t1 * t1))))
                              (of_int df1 / 2) 0.5
                   in Some \<lparr>t = Finite t1, df = df1, p = p1\<rparr>)"

section \<open>Normal distribution and the test for proportions\<close>

definition standardNormalCdf :: "real \<Rightarrow> real" where
  "standardNormalCdf z =
     (let p0 = 0.3275911;
          a1 = 0.254829592; a2 = - 0.284496736; a3 = 1.421413741;
          a4 = - 1.453152027; a5 = 1.061405429;
          sign = (if z < 0 then - 1 else 1);
          x = \<bar>z\<bar> / sqrt 2;
          t0 = 1 / (1 + p0 * x);
          erf = 1 - (((((a5 * t0 + a4) * t0) + a3) * t0 + a2) * t0 + a1) * exp (- x * x)
      in 0.5 * (1 + sign * erf))"

definition calculatePValue :: "real \<Rightarrow> real" where
  "calculatePValue z = 2 * (1 - standardNormalCdf \<bar>z\<bar>)"

text \<open>The statistic \<open>z\<close> that \<open>zTestForProportions\<close> computes once its guards have passed.\<close>

definition zStatistic :: "real \<Rightarrow> real \<Rightarrow> real \<Rightarrow> real \<Rightarrow> real" where
  "zStatistic success1 total1 success2 total2 =
     (let p1 = success1 / total1;
          p2 = success2 / total2;
          pPooled = (success1 + success2) / (total1 + total2);
          se = sqrt (pPooled * (1 - pPooled) * (1 / total1 + 1 / total2))
      in (p1 - p2) / se)"

definition zTestForProportions :: "real \<Rightarrow> real \<Rightarrow> real \<Rightarrow> real \<Rightarrow> real" where
  "zTestForProportions success1 total1 success2 total2 =
     (if total1 = 0 \<or> total2 = 0 then 1
      else let pPooled = (success1 + success2) / (total1 + total2)
           in if pPooled = 0 \<or> pPooled = 1 then 1
              else let se = sqrt (pPooled * (1 - pPooled) * (1 / total1 + 1 / total2))
                   in if se = 0 then 1
                      else calculatePValue (zStatistic success1 total1 success2 total2))"

section \<open>Diagnostic accuracy utilities\<close>

text \<open>The body of the \<open>cases.forEach\<close> callback of \<open>getMatrixForEvaluations\<close>.\<close>

definition countCase ::
    "Evaluations \<Rightarrow> int \<Rightarrow> ConfusionMatrixData \<Rightarrow> CaseData \<Rightarrow> ConfusionMatrixData" where
  "countCase evaluations cutoff matrix c =
     (if caseNumber c \<notin> set (map fst evaluations) then matrix
      else case map_of evaluations (caseNumber c) of
        None \<Rightarrow> matrix
      | Some evaluation \<Rightarrow>
          if viradsFinal evaluation = 0 then matrix
          else
            let isTestPositive = (viradsFinal evaluation \<ge> cutoff);
                isConditionPositive = isCVMIPositive c
            in if isTestPositive \<and> isConditionPositive then matrix\<lparr>tp := tp matrix + 1\<rparr>
               else if isTestPositive \<and> \<not> isConditionPositive then matrix\<lparr>fp := fp matrix + 1\<rparr>
               else if \<not> isTestPositive \<and> isConditionPositive then matrix\<lparr>fn := fn matrix + 1\<rparr>
               else if \<not> isTestPositive \<and> \<not> isConditionPositive then matrix\<lparr>tn := tn matrix + 1\<rparr>
               else matrix)"

definition getMatrixForEvaluations ::
    "Evaluations \<Rightarrow> CaseData list \<Rightarrow> int \<Rightarrow> ConfusionMatrixData" where
  "getMatrixForEvaluations evaluations cases cutoff =
     foldl (countCase evaluations cutoff) \<lparr>tp = 0, fp = 0, tn = 0, fn = 0\<rparr> cases"

definition calculateMetrics :: "ConfusionMatrixData \<Rightarrow> real \<Rightarrow> AnalysisMetrics" where
  "calculateMetrics matrix prevalence =
     (let totalPositives = tp matrix + fn matrix;
          totalNegatives = tn matrix + fp matrix;
          sensitivity = (if totalPositives > 0 then of_int (tp matrix) / of_int totalPositives else 0);
          specificity = (if totalNegatives > 0 then of_int (tn matrix) / of_int totalNegatives else 0);
          ppvNumerator = sensitivity * prevalence;
          ppvDenominator = ppvNumerator + (1 - specificity) * (1 - prevalence);
          ppv = (if ppvDenominator > 0 then ppvNumerator / ppvDenominator else 0);
          npvNumerator = specificity * (1 - prevalence);
          npvDenominator = npvNumerator + (1 - sensitivity) * prevalence;
          npv = (if npvDenominator > 0 then npvNumerator / npvDenominator else 0)
      in \<lparr>sensitivity = sensitivity, specificity = specificity, ppv = ppv, npv = npv\<rparr>)"

text \<open>A point of the ROC curve.\<close>

record RocPoint =
  fpr :: real
  tpr :: real

text \<open>
  \<open>new Map(rocPoints.map(item => [key, item])).values()\<close>: the key is the string
  \<open>`${item.fpr}-${item.tpr}`\<close>, which is the same for two points exactly when the points
  are the same, so an entry is added at the end unless the point is already there.
\<close>

definition insertPoint :: "RocPoint list \<Rightarrow> RocPoint \<Rightarrow> RocPoint list" where
  "insertPoint entries item = (if item \<in> set entries then entries else entries @ [item])"

definition uniquePoints :: "RocPoint list \<Rightarrow> RocPoint list" where
  "uniquePoints rocPoints = foldl insertPoint [] rocPoints"

text \<open>The last loop of \<open>calculateAUC\<close>, with its accumulator \<open>area\<close>.\<close>

fun trapezoid :: "real \<Rightarrow> RocPoint list \<Rightarrow> real" where
  "trapezoid area (p1 # p2 # ps) =
     trapezoid (area + (fpr p2 - fpr p1) * (tpr p1 + tpr p2) / 2) (p2 # ps)"
| "trapezoid area ps = area"

definition rocPointAt :: "Evaluations \<Rightarrow> CaseData list \<Rightarrow> int \<Rightarrow> RocPoint" where
  "rocPointAt evaluations relevantCases cutoff =
     (let matrix = getMatrixForEvaluations evaluations relevantCases cutoff;
          sensitivity = of_int (tp matrix)
            / of_int (if tp matrix + fn matrix = 0 then 1 else tp matrix + fn matrix);
          specificity = of_int (tn matrix)
            / of_int (if tn matrix + fp matrix = 0 then 1 else tn matrix + fp matrix)
      in \<lparr>fpr = 1 - specificity, tpr = sensitivity\<rparr>)"

definition calculateAUC :: "Evaluations \<Rightarrow> CaseData list \<Rightarrow> real" where
  "calculateAUC evaluations cases =
     (let evaluatedCaseNumbers =
            filter (\<lambda>cn. case map_of evaluations cn of
                           None \<Rightarrow> False
                         | Some e \<Rightarrow> viradsFinal e > 0) (map fst evaluations);
          relevantCases = filter (\<lambda>c. caseNumber c \<in> set evaluatedCaseNumbers) cases
      in if length relevantCases = 0 then 0.5
         else let totalPositives = int (length (filter isCVMIPositive relevantCases));
                  totalNegatives = int (length relevantCases) - totalPositives
              in if totalPositives = 0 \<or> totalNegatives = 0 then 0.5
                 else let rocPoints = [\<lparr>fpr = 0, tpr = 0\<rparr>]
                            @ map (rocPointAt evaluations relevantCases) [2, 3, 4, 5]
                            @ [\<lparr>fpr = 1, tpr = 1\<rparr>];
                          uniqueSortedPoints = sort_key fpr (uniquePoints rocPoints)
                      in trapezoid 0 uniqueSortedPoints)"

section \<open>The analysis screen: per-reader rows and group averages\<close>

record ReaderResult =
  user :: User
  evaluatedCount :: int
  finalMetrics :: AnalysisMetrics
  partialMetrics :: AnalysisMetrics
  finalAuc :: real
  pValueSensitivity :: real
  pValueSpecificity :: real

text \<open>\<open>xs.slice(0, e)\<close>; a negative \<open>e\<close> counts from the end.\<close>

definition slice0 :: "'a list \<Rightarrow> int \<Rightarrow> 'a list" where
  "slice0 xs e = (if e < 0 then take (nat (int (length xs) + e)) xs else take (nat e) xs)"

text \<open>\<open>allEvaluations[user.id] || {}\<close>.\<close>

definition userEvalsOf :: "(string \<times> Evaluations) list \<Rightarrow> User \<Rightarrow> Evaluations" where
  "userEvalsOf allEvaluations u =
     (case map_of allEvaluations (id' u) of None \<Rightarrow> [] | Some evs \<Rightarrow> evs)"

text \<open>
  The keys of a reader with a final score above 0, in ascending order. Every key read
  here is a key of the object, so the lookup finds its evaluation.
\<close>

definition evaluatedKeysOf :: "Evaluations \<Rightarrow> int list" where
  "evaluatedKeysOf userEvals =
     sort (filter (\<lambda>k. case map_of userEvals k of
                          None \<Rightarrow> False
                        | Some e \<Rightarrow> viradsFinal e > 0) (map fst userEvals))"

text \<open>The body of \<open>allUsers.forEach\<close>: the row pushed for one reader.\<close>

definition analyzeUser ::
    "CaseData list \<Rightarrow> (string \<times> Evaluations) list \<Rightarrow> int \<Rightarrow> real \<Rightarrow> real \<Rightarrow> User \<Rightarrow> ReaderResult" where
  "analyzeUser cases allEvaluations cutoff prevalence comparisonPercentage u =
     (let userEvals = userEvalsOf allEvaluations u;
          evaluatedKeys = evaluatedKeysOf userEvals
      in if length evaluatedKeys = 0 then
           \<lparr>user = u, evaluatedCount = 0,
            finalMetrics = \<lparr>sensitivity = 0, specificity = 0, ppv = 0, npv = 0\<rparr>,
            partialMetrics = \<lparr>sensitivity = 0, specificity = 0, ppv = 0, npv = 0\<rparr>,
            finalAuc = 0.5, pValueSensitivity = 1, pValueSpecificity = 1\<rparr>
         else
           let evaluatedCases = filter (\<lambda>c. caseNumber c \<in> set evaluatedKeys) cases;
               finalMatrix = getMatrixForEvaluations userEvals evaluatedCases cutoff;
               finalMetrics = calculateMetrics finalMatrix prevalence;
               finalAuc = calculateAUC userEvals evaluatedCases;
               partialCount = \<lceil>of_nat (length evaluatedKeys) * (comparisonPercentage / 100)\<rceil>;
               partialKeys = slice0 evaluatedKeys partialCount;
               partialEvals = foldl (\<lambda>acc key. case map_of userEvals key of
                                                   None \<Rightarrow> acc
                                                 | Some e \<Rightarrow> AList.update key e acc) [] partialKeys;
               partialCases = filter (\<lambda>c. caseNumber c \<in> set partialKeys) cases;
               partialMatrix = getMatrixForEvaluations partialEvals partialCases cutoff;
               partialMetrics = calculateMetrics partialMatrix prevalence;
               P_final = tp finalMatrix + fn finalMatrix;
               N_final = tn finalMatrix + fp finalMatrix;
               P_partial = tp partialMatrix + fn partialMatrix;
               N_partial = tn partialMatrix + fp partialMatrix;
               pValueSensitivity = zTestForProportions (of_int (tp partialMatrix)) (of_int P_partial)
                                     (of_int (tp finalMatrix)) (of_int P_final);
               pValueSpecificity = zTestForProportions (of_int (tn partialMatrix)) (of_int N_partial)
                                     (of_int (tn finalMatrix)) (of_int N_final)
           in \<lparr>user = u, evaluatedCount = int (length evaluatedKeys),
               finalMetrics = finalMetrics, partialMetrics = partialMetrics,
               finalAuc = finalAuc, pValueSensitivity = pValueSensitivity,
               pValueSpecificity = pValueSpecificity\<rparr>)"

definition averageOf :: "(AnalysisMetrics \<Rightarrow> real) \<Rightarrow> ReaderResult list \<Rightarrow> real" where
  "averageOf metric validResults =
     foldl (\<lambda>acc r. acc + metric (finalMetrics r)) 0 validResults
       / of_nat (if length validResults = 0 then 1 else length validResults)"

definition averageMetrics :: "ReaderResult list \<Rightarrow> AnalysisMetrics" where
  "averageMetrics resultsByUser =
     (let validResults = filter (\<lambda>r. evaluatedCount r > 0) resultsByUser
      in \<lparr>sensitivity = averageOf sensitivity validResults,
          specificity = averageOf specificity validResults,
          ppv = averageOf ppv validResults,
          npv = averageOf npv validResults\<rparr>)"

definition analysisData ::
    "User list \<Rightarrow> CaseData list \<Rightarrow> (string \<times> Evaluations) list \<Rightarrow> int \<Rightarrow> real \<Rightarrow> real
       \<Rightarrow> ReaderResult list \<times> AnalysisMetrics" where
  "analysisData allUsers cases allEvaluations cutoff prevalence comparisonPercentage =
     (let resultsByUser =
            map (analyzeUser cases allEvaluations cutoff prevalence comparisonPercentage) allUsers
      in (resultsByUser, averageMetrics resultsByUser))"

section \<open>Notions used to state the properties\<close>

text \<open>The final score a reader gave to a case, if the case has an evaluation.\<close>

definition finalScore :: "Evaluations \<Rightarrow> CaseData \<Rightarrow> int option" where
  "finalScore evaluations c = map_option viradsFinal (map_of evaluations (caseNumber c))"

text \<open>
  The cell of the confusion matrix a case belongs to: none when the case has no
  evaluation or its final score is the sentinel 0; otherwise test-positive when the score
  reaches the cutoff and condition-positive when the pathology is.
\<close>

datatype Cell = TruePositive | FalsePositive | TrueNegative | FalseNegative

definition cellOf :: "Evaluations \<Rightarrow> int \<Rightarrow> CaseData \<Rightarrow> Cell option" where
  "cellOf evaluations cutoff c =
     (case finalScore evaluations c of
        None \<Rightarrow> None
      | Some s \<Rightarrow>
          if s = 0 then None
          else if s \<ge> cutoff then Some (if isCVMIPositive c then TruePositive else FalsePositive)
          else Some (if isCVMIPositive c then FalseNegative else TrueNegative))"

definition cellCount :: "Evaluations \<Rightarrow> int \<Rightarrow> Cell \<Rightarrow> CaseData list \<Rightarrow> int" where
  "cellCount evaluations cutoff cell cases =
     int (length (filter (\<lambda>c. cellOf evaluations cutoff c = Some cell) cases))"

definition hasNonZeroFinal :: "Evaluations \<Rightarrow> CaseData \<Rightarrow> bool" where
  "hasNonZeroFinal evaluations c =
     (case finalScore evaluations c of None \<Rightarrow> False | Some s \<Rightarrow> s \<noteq> 0)"

definition hasPositiveFinal :: "Evaluations \<Rightarrow> CaseData \<Rightarrow> bool" where
  "hasPositiveFinal evaluations c =
     (case finalScore evaluations c of None \<Rightarrow> False | Some s \<Rightarrow> s > 0)"

definition nonZeroFinalCount :: "Evaluations \<Rightarrow> CaseData list \<Rightarrow> int" where
  "nonZeroFinalCount evaluations cases = int (length (filter (hasNonZeroFinal evaluations) cases))"

definition positiveFinalCount :: "Evaluations \<Rightarrow> CaseData list \<Rightarrow> int" where
  "positiveFinalCount evaluations cases = int (length (filter (hasPositiveFinal evaluations) cases))"

definition matrixTotal :: "ConfusionMatrixData \<Rightarrow> int" where
  "matrixTotal m = tp m + fp m + tn m + fn m"

text \<open>The cases that \<open>calculateAUC\<close> keeps: those with a final score above 0.\<close>

definition evaluatedSubset :: "Evaluations \<Rightarrow> CaseData list \<Rightarrow> CaseData list" where
  "evaluatedSubset evaluations cases = filter (hasPositiveFinal evaluations) cases"

text \<open>A reader has evaluated when some entry of the reader's map has a final score above 0.\<close>

definition hasEvaluated :: "(string \<times> Evaluations) list \<Rightarrow> User \<Rightarrow> bool" where
  "hasEvaluated allEvaluations u =
     list_ex (\<lambda>(k, e). viradsFinal e > 0) (userEvalsOf allEvaluations u)"

text \<open>The row reported for a reader who has evaluated nothing.\<close>

definition defaultRow :: "User \<Rightarrow> ReaderResult" where
  "defaultRow u =
     \<lparr>user = u, evaluatedCount = 0,
      finalMetrics = \<lparr>sensitivity = 0, specificity = 0, ppv = 0, npv = 0\<rparr>,
      partialMetrics = \<lparr>sensitivity = 0, specificity = 0, ppv = 0, npv = 0\<rparr>,
      finalAuc = 0.5, pValueSensitivity = 1, pValueSpecificity = 1\<rparr>"

text \<open>A reader, for the examples.\<close>

definition reader1 :: User where
  "reader1 = \<lparr>id' = ''r1'', name = ''Ana'', surname = ''Ruiz'', experience = ''Experto''\<rparr>"


section \<open>The end-to-end scenario\<close>

definition scenarioCases :: "CaseData list" where
  "scenarioCases = [parseCase 1 T1, parseCase 2 T3, parseCase 3 T2, parseCase 4 Ta]"

declare logGamma.simps [simp del]
declare betacfLoop.simps [simp del]

text \<open>
  C1. With the four cases T1, T3, T2, Ta (negative, positive, positive, negative) and one
  reader whose final scores are 2, 4, 5, 1, the matrix at cutoff 3 is
  \<open>{tp: 2, fp: 0, tn: 2, fn: 0}\<close>, and the metrics of that matrix have sensitivity 1 and
  specificity 1, whatever the other fields of the evaluations and the prevalence are.
\<close>

theorem scenario_matrix_and_metrics:
  "map isCVMIPositive scenarioCases = [False, True, True, False]
   \<and> getMatrixForEvaluations
        [(1, e1\<lparr>viradsFinal := 2\<rparr>), (2, e2\<lparr>viradsFinal := 4\<rparr>),
         (3, e3\<lparr>viradsFinal := 5\<rparr>), (4, e4\<lparr>viradsFinal := 1\<rparr>)] scenarioCases 3
       = \<lparr>tp = 2, fp = 0, tn = 2, fn = 0\<rparr>
   \<and> sensitivity (calculateMetrics \<lparr>tp = 2, fp = 0, tn = 2, fn = 0\<rparr> prevalence) = 1
   \<and> specificity (calculateMetrics \<lparr>tp = 2, fp = 0, tn = 2, fn = 0\<rparr> prevalence) = 1"
  by (simp add: scenarioCases_def parseCase_def CVMI_STAGES_def getMatrixForEvaluations_def
      countCase_def calculateMetrics_def Let_def)

section \<open>The confusion matrix\<close>

lemma key_listed_iff: "k \<in> set (map fst evs) \<longleftrightarrow> map_of evs k \<noteq> None"
  by (simp add: map_of_eq_None_iff)

lemma countCase_cells:
  "tp (countCase evs k m c) = tp m + (if cellOf evs k c = Some TruePositive then 1 else 0)"
  "fp (countCase evs k m c) = fp m + (if cellOf evs k c = Some FalsePositive then 1 else 0)"
  "tn (countCase evs k m c) = tn m + (if cellOf evs k c = Some TrueNegative then 1 else 0)"
  "fn (countCase evs k m c) = fn m + (if cellOf evs k c = Some FalseNegative then 1 else 0)"
  unfolding countCase_def key_listed_iff cellOf_def finalScore_def Let_def
  by (cases "map_of evs (caseNumber c)"; simp)+

lemma foldl_countCase_cells:
  "tp (foldl (countCase evs k) m cs) = tp m + cellCount evs k TruePositive cs"
  "fp (foldl (countCase evs k) m cs) = fp m + cellCount evs k FalsePositive cs"
  "tn (foldl (countCase evs k) m cs) = tn m + cellCount evs k TrueNegative cs"
  "fn (foldl (countCase evs k) m cs) = fn m + cellCount evs k FalseNegative cs"
  by (induction cs arbitrary: m; simp add: countCase_cells cellCount_def)+

lemma getMatrix_cells:
  "tp (getMatrixForEvaluations evs cs k) = cellCount evs k TruePositive cs"
  "fp (getMatrixForEvaluations evs cs k) = cellCount evs k FalsePositive cs"
  "tn (getMatrixForEvaluations evs cs k) = cellCount evs k TrueNegative cs"
  "fn (getMatrixForEvaluations evs cs k) = cellCount evs k FalseNegative cs"
  by (simp_all add: getMatrixForEvaluations_def foldl_countCase_cells)

lemma cellCount_nonneg: "0 \<le> cellCount evs k cell cs"
  by (simp add: cellCount_def)

lemma cellCount_total:
  "cellCount evs k TruePositive cs + cellCount evs k FalsePositive cs
     + cellCount evs k TrueNegative cs + cellCount evs k FalseNegative cs
   = nonZeroFinalCount evs cs"
  by (induction cs)
     (auto simp: cellCount_def cellOf_def hasNonZeroFinal_def nonZeroFinalCount_def
           split: option.splits)

lemma nonneg_scores_positive:
  assumes nn: "\<forall>e \<in> snd ` set evs. 0 \<le> viradsFinal e"
  shows "hasNonZeroFinal evs c = hasPositiveFinal evs c"
proof (cases "map_of evs (caseNumber c)")
  case None
  then show ?thesis by (simp add: hasNonZeroFinal_def hasPositiveFinal_def finalScore_def)
next
  case (Some e)
  then have "(caseNumber c, e) \<in> set evs" by (rule map_of_SomeD)
  then have "e \<in> snd ` set evs" by force
  with nn have "0 \<le> viradsFinal e" by blast
  with Some show ?thesis
    by (auto simp: hasNonZeroFinal_def hasPositiveFinal_def finalScore_def)
qed

lemma classified_iff_positive:
  assumes "\<forall>e \<in> snd ` set evs. 0 \<le> viradsFinal e"
  shows "(cellOf evs k c \<noteq> None) = hasPositiveFinal evs c"
proof -
  have "(cellOf evs k c \<noteq> None) = hasNonZeroFinal evs c"
    by (simp add: cellOf_def hasNonZeroFinal_def split: option.splits)
  then show ?thesis using nonneg_scores_positive [OF assms] by simp
qed

text \<open>
  C2. An evaluation map holds final scores 0 (not yet scored) or 1 to 5; the theorem
  needs only that no final score is negative. For every such map, every case list and
  every cutoff, the four cells of the matrix are non-negative integers; each cell is the
  number of cases of the list that fall in that cell, so a case is counted in at most one
  cell; a case falls in a cell exactly when it has an evaluation with a final score above
  0; and the cells add up to the number of those cases. A case without evaluation or with
  final score 0 changes nothing.
\<close>

theorem matrix_counts_classified_cases:
  assumes "\<forall>e \<in> snd ` set evs. 0 \<le> viradsFinal e"
  shows "0 \<le> tp (getMatrixForEvaluations evs cs k) \<and> 0 \<le> fp (getMatrixForEvaluations evs cs k)
   \<and> 0 \<le> tn (getMatrixForEvaluations evs cs k) \<and> 0 \<le> fn (getMatrixForEvaluations evs cs k)
   \<and> tp (getMatrixForEvaluations evs cs k) = cellCount evs k TruePositive cs
   \<and> fp (getMatrixForEvaluations evs cs k) = cellCount evs k FalsePositive cs
   \<and> tn (getMatrixForEvaluations evs cs k) = cellCount evs k TrueNegative cs
   \<and> fn (getMatrixForEvaluations evs cs k) = cellCount evs k FalseNegative cs
   \<and> (\<forall>c. (cellOf evs k c \<noteq> None) = hasPositiveFinal evs c)
   \<and> matrixTotal (getMatrixForEvaluations evs cs k) = positiveFinalCount evs cs"
proof -
  have total: "matrixTotal (getMatrixForEvaluations evs cs k) = nonZeroFinalCount evs cs"
    unfolding matrixTotal_def getMatrix_cells by (rule cellCount_total)
  have "filter (hasNonZeroFinal evs) cs = filter (hasPositiveFinal evs) cs"
    using nonneg_scores_positive [OF assms] by (intro filter_cong) auto
  with total have "matrixTotal (getMatrixForEvaluations evs cs k) = positiveFinalCount evs cs"
    by (simp add: nonZeroFinalCount_def positiveFinalCount_def)
  then show ?thesis
    using classified_iff_positive [OF assms]
    by (simp add: getMatrix_cells cellCount_nonneg)
qed

theorem matrix_counts_classified_cases_witness:
  "matrixTotal (getMatrixForEvaluations [(1, DEFAULT_EVAL\<lparr>viradsFinal := 4\<rparr>), (2, DEFAULT_EVAL)]
        [parseCase 1 T2, parseCase 2 Ta, parseCase 3 T1] 3) = 1
   \<and> positiveFinalCount [(1, DEFAULT_EVAL\<lparr>viradsFinal := 4\<rparr>), (2, DEFAULT_EVAL)]
        [parseCase 1 T2, parseCase 2 Ta, parseCase 3 T1] = 1"
  using matrix_counts_classified_cases
    [of "[(1, DEFAULT_EVAL\<lparr>viradsFinal := 4\<rparr>), (2, DEFAULT_EVAL)]"
        "[parseCase 1 T2, parseCase 2 Ta, parseCase 3 T1]" 3]
  by (simp add: DEFAULT_EVAL_def parseCase_def positiveFinalCount_def hasPositiveFinal_def
      finalScore_def)

text \<open>
  Why the scores are assumed not to be negative: the guard of the source skips the final
  score 0 only, so a score of -1, which the evaluation screen never stores, would be
  counted as a test-negative.
\<close>

lemma negative_score_outside_domain:
  "matrixTotal (getMatrixForEvaluations [(1, DEFAULT_EVAL\<lparr>viradsFinal := - 1\<rparr>)] [parseCase 1 T2] 3) = 1
   \<and> positiveFinalCount [(1, DEFAULT_EVAL\<lparr>viradsFinal := - 1\<rparr>)] [parseCase 1 T2] = 0"
  by (simp add: matrixTotal_def getMatrixForEvaluations_def countCase_def DEFAULT_EVAL_def
      parseCase_def CVMI_STAGES_def positiveFinalCount_def hasPositiveFinal_def finalScore_def)

section \<open>Predictive values of a perfect matrix\<close>

text \<open>
  C9. When the metrics of a matrix have sensitivity 1 and specificity 1 (which is the
  case exactly when fn = 0, fp = 0, tp > 0 and tn > 0), and the prevalence passed is the
  matrix's own (tp + fn) / (tp + fp + tn + fn), then PPV = 1 and NPV = 1.
\<close>

theorem perfect_matrix_predictive_values:
  assumes "sensitivity (calculateMetrics m prev) = 1"
      and "specificity (calculateMetrics m prev) = 1"
      and "prev = of_int (tp m + fn m) / of_int (tp m + fp m + tn m + fn m)"
  shows "fn m = 0 \<and> fp m = 0 \<and> tp m > 0 \<and> tn m > 0
         \<and> ppv (calculateMetrics m prev) = 1 \<and> npv (calculateMetrics m prev) = 1"
proof -
  from assms(1) have P: "tp m + fn m > 0"
    and s: "real_of_int (tp m) / real_of_int (tp m + fn m) = 1"
    by (auto simp: calculateMetrics_def Let_def split: if_splits)
  from assms(2) have N: "tn m + fp m > 0"
    and sp: "real_of_int (tn m) / real_of_int (tn m + fp m) = 1"
    by (auto simp: calculateMetrics_def Let_def split: if_splits)
  from P s have fn0: "fn m = 0" by simp
  from N sp have fp0: "fp m = 0" by simp
  from P fn0 have tpp: "tp m > 0" by simp
  from N fp0 have tnp: "tn m > 0" by simp
  have prev: "prev = real_of_int (tp m) / (real_of_int (tp m) + real_of_int (tn m))"
    using assms(3) fn0 fp0 by simp
  have p0: "0 < prev" using tpp tnp unfolding prev by simp
  have p1: "0 < 1 - prev" using tpp tnp unfolding prev by (simp add: field_simps)
  have "ppv (calculateMetrics m prev) = 1"
    using fn0 fp0 tpp tnp p0 by (simp add: calculateMetrics_def Let_def)
  moreover have "npv (calculateMetrics m prev) = 1"
    using fn0 fp0 tpp tnp p1 by (simp add: calculateMetrics_def Let_def)
  ultimately show ?thesis using fn0 fp0 tpp tnp by simp
qed

theorem perfect_matrix_predictive_values_witness:
  "sensitivity (calculateMetrics \<lparr>tp = 2, fp = 0, tn = 3, fn = 0\<rparr> (2 / 5)) = 1
   \<and> specificity (calculateMetrics \<lparr>tp = 2, fp = 0, tn = 3, fn = 0\<rparr> (2 / 5)) = 1
   \<and> ppv (calculateMetrics \<lparr>tp = 2, fp = 0, tn = 3, fn = 0\<rparr> (2 / 5)) = 1
   \<and> npv (calculateMetrics \<lparr>tp = 2, fp = 0, tn = 3, fn = 0\<rparr> (2 / 5)) = 1"
proof -
  have s: "sensitivity (calculateMetrics \<lparr>tp = 2, fp = 0, tn = 3, fn = 0\<rparr> (2 / 5)) = 1"
    and sp: "specificity (calculateMetrics \<lparr>tp = 2, fp = 0, tn = 3, fn = 0\<rparr> (2 / 5)) = 1"
    by (simp_all add: calculateMetrics_def)
  show ?thesis
    using s sp perfect_matrix_predictive_values [OF s sp] by simp
qed

section \<open>The test for proportions at equal proportions\<close>

lemma calculatePValue_zero: "calculatePValue 0 = 999999999 / 1000000000"
  by (simp add: calculatePValue_def standardNormalCdf_def Let_def)

lemma equal_proportions_z:
  assumes "0 < total1" "0 < total2" "success1 / total1 = success2 / total2"
      and "0 < (success1 + success2) / (total1 + total2)"
      and "(success1 + success2) / (total1 + total2) < 1"
  shows "zStatistic success1 total1 success2 total2 = 0"
    and "zTestForProportions success1 total1 success2 total2 = 999999999 / 1000000000"
proof -
  show z: "zStatistic success1 total1 success2 total2 = 0"
    using assms(3) by (simp add: zStatistic_def Let_def)
  let ?pp = "(success1 + success2) / (total1 + total2)"
  have "0 < ?pp * (1 - ?pp)" using assms(4,5) by (intro mult_pos_pos) linarith+
  moreover have "0 < 1 / total1 + 1 / total2" using assms(1,2) by (simp add: add_pos_pos)
  ultimately have "0 < ?pp * (1 - ?pp) * (1 / total1 + 1 / total2)" by (rule mult_pos_pos)
  then have se: "\<not> sqrt (?pp * (1 - ?pp) * (1 / total1 + 1 / total2)) = 0"
    by (metis real_sqrt_eq_zero_cancel_iff less_irrefl)
  have tot: "\<not> (total1 = 0 \<or> total2 = 0)" using assms(1,2) by simp
  have pooled: "\<not> (?pp = 0 \<or> ?pp = 1)" using assms(4,5) by linarith
  have "zTestForProportions success1 total1 success2 total2
          = calculatePValue (zStatistic success1 total1 success2 total2)"
    unfolding zTestForProportions_def Let_def by (simp only: tot pooled se if_False)
  then show "zTestForProportions success1 total1 success2 total2 = 999999999 / 1000000000"
    using z calculatePValue_zero by simp
qed

text \<open>
  C3, as the source has it. With positive totals, equal proportions and a pooled
  proportion strictly between 0 and 1, the statistic z is 0 and the value returned is
  \<open>2 * (1 - standardNormalCdf 0)\<close>. The approximation of the normal distribution gives
  \<open>0.5000000005\<close> at 0 (its five coefficients add up to \<open>0.999999999\<close>), so the
  p-value returned is \<open>0.999999999\<close>: 1.0 up to \<open>10\<^sup>-\<^sup>9\<close>, not exactly 1.0.
\<close>

theorem equal_proportions_pvalue:
  assumes "0 < total1" "0 < total2" "success1 / total1 = success2 / total2"
      and "0 < (success1 + success2) / (total1 + total2)"
      and "(success1 + success2) / (total1 + total2) < 1"
  shows "zStatistic success1 total1 success2 total2 = 0
       \<and> zTestForProportions success1 total1 success2 total2 = 999999999 / 1000000000"
  using equal_proportions_z [OF assms] by simp

theorem equal_proportions_pvalue_witness:
  "zStatistic 3 4 3 4 = 0 \<and> zTestForProportions 3 4 3 4 = 999999999 / 1000000000"
  using equal_proportions_pvalue [of 4 4 3 3] by simp

text \<open>C3 as stated fails: \<open>zTestForProportions(10, 20, 10, 20)\<close> is not 1.\<close>

theorem ztest_10_20_not_one:
  "zStatistic 10 20 10 20 = 0 \<and> zTestForProportions 10 20 10 20 = 999999999 / 1000000000
   \<and> zTestForProportions 10 20 10 20 \<noteq> 1"
  using equal_proportions_z [of 20 20 10 10] by simp

text \<open>
  The same value in the analysis screen: with a comparison percentage of 100 the partial
  subset of a reader is the full subset, and for a reader with one hit and one miss among
  the positive and among the negative cases both p-values are \<open>0.999999999\<close>.
\<close>

lemma identical_subsets_pvalues_example:
  "pValueSensitivity (analyzeUser
       [parseCase 1 T2, parseCase 2 T3, parseCase 3 Ta, parseCase 4 T1]
       [(''r1'', [(1, DEFAULT_EVAL\<lparr>viradsFinal := 5\<rparr>), (2, DEFAULT_EVAL\<lparr>viradsFinal := 1\<rparr>),
                  (3, DEFAULT_EVAL\<lparr>viradsFinal := 5\<rparr>), (4, DEFAULT_EVAL\<lparr>viradsFinal := 1\<rparr>)])]
       4 (1/2) 100 reader1) = 999999999 / 1000000000
   \<and> pValueSpecificity (analyzeUser
       [parseCase 1 T2, parseCase 2 T3, parseCase 3 Ta, parseCase 4 T1]
       [(''r1'', [(1, DEFAULT_EVAL\<lparr>viradsFinal := 5\<rparr>), (2, DEFAULT_EVAL\<lparr>viradsFinal := 1\<rparr>),
                  (3, DEFAULT_EVAL\<lparr>viradsFinal := 5\<rparr>), (4, DEFAULT_EVAL\<lparr>viradsFinal := 1\<rparr>)])]
       4 (1/2) 100 reader1) = 999999999 / 1000000000"
proof -
  have z: "zTestForProportions 1 2 1 2 = 999999999 / 1000000000"
    using equal_proportions_z(2) [of 2 2 1 1] by simp
  show ?thesis
    by (simp add: analyzeUser_def userEvalsOf_def evaluatedKeysOf_def reader1_def DEFAULT_EVAL_def
        parseCase_def CVMI_STAGES_def slice0_def getMatrixForEvaluations_def countCase_def
        Let_def z)
qed

section \<open>The reflection branch of \<open>logGamma\<close>\<close>








section \<open>The t-tests\<close>

text \<open>
  C7. \<open>tTestIndependent\<close> returns \<open>null\<close> exactly when one of the samples has fewer
  than 2 observations; \<open>tTestPaired\<close> returns \<open>null\<close> exactly when the samples differ in
  length or have fewer than 2 pairs. Otherwise each returns a result, whose degrees of
  freedom are n1 + n2 - 2 and n - 1. This holds whatever the rounding is.
\<close>

theorem ttest_null_iff:
  "(tTestIndependent rnd s1 s2 = None \<longleftrightarrow> length s1 < 2 \<or> length s2 < 2)
   \<and> (tTestPaired rnd s1 s2 = None \<longleftrightarrow> length s1 \<noteq> length s2 \<or> length s1 < 2)
   \<and> (\<not> (length s1 < 2 \<or> length s2 < 2) \<longrightarrow>
        (\<exists>r. tTestIndependent rnd s1 s2 = Some r \<and> df r = int (length s1) + int (length s2) - 2))
   \<and> (\<not> (length s1 \<noteq> length s2 \<or> length s1 < 2) \<longrightarrow>
        (\<exists>r. tTestPaired rnd s1 s2 = Some r \<and> df r = int (length s1) - 1))"
  by (simp add: tTestIndependent_def tTestPaired_def Let_def)

theorem ttest_null_iff_witness:
  "tTestIndependent roundDouble [1, 2] [3, 5] \<noteq> None \<and> tTestPaired roundDouble [1, 2] [3, 5] \<noteq> None
   \<and> tTestIndependent roundDouble [1] [3, 5] = None
   \<and> tTestPaired roundDouble [1, 2, 3] [3, 5] = None"
  using ttest_null_iff [of roundDouble "[1, 2]" "[3, 5]"] ttest_null_iff [of roundDouble "[1]" "[3, 5]"]
    ttest_null_iff [of roundDouble "[1, 2, 3]" "[3, 5]"]
  by simp

lemma foldl_rnd_zeros:
  assumes "rnd 0 = 0" "\<forall>x \<in> set xs. g x = (0::real)"
  shows "foldl (\<lambda>acc val. rnd (acc + g val)) 0 xs = 0"
  using assms by (induction xs) auto

lemma pairDiffs_same:
  assumes "rnd 0 = 0"
  shows "\<forall>x \<in> set (pairDiffs rnd s s). x = 0"
  using assms by (auto simp: pairDiffs_def zip_same)

lemma stdDev_all_zero:
  assumes r: "rnd 0 = 0" and z: "\<forall>x \<in> set xs. x = 0"
  shows "stdDev rnd xs = 0"
proof -
  have "foldl (\<lambda>a b. rnd (a + b)) 0 xs = 0"
    using foldl_rnd_zeros [of rnd xs "\<lambda>x. x"] r z by simp
  then have m: "mean rnd xs = 0" using r by (simp add: mean_def)
  have "foldl (\<lambda>acc val. rnd (acc + rnd (rnd (val - 0) ^ 2))) 0 xs = 0"
    using r z by (intro foldl_rnd_zeros) auto
  with m r show ?thesis by (simp add: stdDev_def Let_def)
qed

text \<open>
  C8, as the source has it. Whatever the rounding is, as long as it leaves 0 unchanged:
  for two samples of the same length n \<ge> 2 that are identical, or for which the standard
  deviation that \<open>stdDev\<close> computes for their differences is exactly 0, \<open>tTestPaired\<close>
  returns the statistic \<open>Infinity\<close>, n - 1 degrees of freedom and the p-value 0.
\<close>

theorem paired_zero_variance:
  "rnd 0 = 0 \<Longrightarrow> length s1 = length s2 \<Longrightarrow> 2 \<le> length s1 \<Longrightarrow>
     s1 = s2 \<or> stdDev rnd (pairDiffs rnd s1 s2) = 0 \<Longrightarrow>
     tTestPaired rnd s1 s2 = Some \<lparr>t = Infinity, df = int (length s1) - 1, p = 0\<rparr>"
proof -
  assume r: "rnd 0 = 0" and len: "length s1 = length s2" "2 \<le> length s1"
    and z: "s1 = s2 \<or> stdDev rnd (pairDiffs rnd s1 s2) = 0"
  have "stdDev rnd (pairDiffs rnd s1 s2) = 0"
  proof (cases "s1 = s2")
    case True
    have "\<forall>x \<in> set (pairDiffs rnd s1 s1). x = 0" using pairDiffs_same [of rnd s1] r by simp
    then have "stdDev rnd (pairDiffs rnd s1 s1) = 0"
      using stdDev_all_zero [of rnd "pairDiffs rnd s1 s1"] r by simp
    with True show ?thesis by simp
  next
    case False
    with z show ?thesis by simp
  qed
  with len show ?thesis by (simp add: tTestPaired_def Let_def)
qed

theorem paired_zero_variance_witness:
  "tTestPaired roundDouble [1, 2] [1, 2] = Some \<lparr>t = Infinity, df = 1, p = 0\<rparr>"
  using paired_zero_variance [of roundDouble "[1, 2]" "[1, 2]"] by (simp add: roundDouble_def)

subsection \<open>Rounding to the nearest double\<close>

lemma pow2_powr: "pow2 e = 2 powr (of_int e)"
  by (simp add: pow2_def powr_int)

lemma pow2_pos: "0 < pow2 e"
  by (simp add: pow2_powr)

lemma floor_log2_binade:
  assumes "0 < x" "pow2 e \<le> x" "x < pow2 (e + 1)"
  shows "\<lfloor>log 2 x\<rfloor> = e"
  using assms floor_log_eq_powr_iff [of x 2 e] by (simp add: pow2_powr)

lemma roundDouble_binade:
  assumes "x \<noteq> 0" "pow2 e \<le> \<bar>x\<bar>" "\<bar>x\<bar> < pow2 (e + 1)"
  shows "roundDouble x = of_int (roundHalfEven (x / pow2 (e - 52))) * pow2 (e - 52)"
proof -
  have "\<lfloor>log 2 \<bar>x\<bar>\<rfloor> = e" using assms by (intro floor_log2_binade) auto
  then show ?thesis using assms(1) by (simp add: roundDouble_def Let_def)
qed

lemma roundHalfEven_of_int: "roundHalfEven (of_int n) = n"
  by (simp add: roundHalfEven_def)

lemma roundHalfEven_ge_floor: "\<lfloor>y\<rfloor> \<le> roundHalfEven y"
  by (simp add: roundHalfEven_def Let_def)



lemma pow2_split: "pow2 e = pow2 (e - 52) * 2 ^ 52"
proof -
  have "pow2 e = 2 powr (of_int (e - 52) + 52)" by (simp add: pow2_powr)
  also have "\<dots> = 2 powr (of_int (e - 52)) * 2 powr 52" by (rule powr_add)
  also have "2 powr (52::real) = 2 ^ 52" by simp
  finally show ?thesis by (simp add: pow2_powr)
qed

lemma roundDouble_pos:
  assumes "0 < x"
  shows "0 < roundDouble x"
proof -
  define e where "e = \<lfloor>log 2 \<bar>x\<bar>\<rfloor>"
  define u where "u = pow2 (e - 52)"
  have u: "0 < u" by (simp add: u_def pow2_pos)
  have "of_int e \<le> log 2 x" using assms by (simp add: e_def)
  then have "2 powr (of_int e) \<le> x" using assms by (simp add: le_log_iff)
  then have "u * 2 ^ 52 \<le> x" using pow2_split [of e] by (simp add: pow2_powr u_def)
  moreover have "u * 1 \<le> u * 2 ^ 52" using u by (intro mult_left_mono) auto
  ultimately have "u \<le> x" by simp
  then have "1 \<le> x / u" using u by (simp add: pos_le_divide_eq)
  then have "1 \<le> \<lfloor>x / u\<rfloor>" by simp
  then have "1 \<le> roundHalfEven (x / u)"
    using roundHalfEven_ge_floor [of "x / u"] by linarith
  then have "0 < real_of_int (roundHalfEven (x / u)) * u"
    using u by (intro mult_pos_pos) auto
  then show ?thesis using assms by (simp add: roundDouble_def Let_def e_def u_def)
qed

subsection \<open>Constant differences that are not exactly 0\<close>

text \<open>
  The reading times 8, 8, 8 of one reader against the averages 16/3, 16/3, 16/3 of all
  readers, where 16/3 is the double \<open>6004799503160661 / 2 ^ 50\<close>. The three differences
  are the same double; their sum rounds to 8 (a tie, resolved to the even neighbour), so
  the mean computed is one unit in the last place below each difference.
\<close>

lemma rd_diff:
  "roundDouble (8 - 6004799503160661 / 1125899906842624) = 3002399751580331 / 1125899906842624"
  by (subst roundDouble_binade [where e = 1]) (simp_all add: pow2_def roundHalfEven_def)

lemma constant_differences:
  "pairDiffs roundDouble [8, 8, 8]
     [6004799503160661 / 1125899906842624, 6004799503160661 / 1125899906842624,
      6004799503160661 / 1125899906842624]
   = [3002399751580331 / 1125899906842624, 3002399751580331 / 1125899906842624,
      3002399751580331 / 1125899906842624]"
  unfolding pairDiffs_def by (simp only: zip.simps list.case list.map prod.case rd_diff)

lemma rounded_sum:
  "foldl (\<lambda>a b. roundDouble (a + b)) 0
     [3002399751580331 / 1125899906842624, 3002399751580331 / 1125899906842624,
      3002399751580331 / 1125899906842624] = 8"
proof -
  let ?d = "3002399751580331 / 1125899906842624 :: real"
  have a1: "roundDouble (0 + ?d) = ?d"
    by (subst roundDouble_binade [where e = 1]) (simp_all add: pow2_def roundHalfEven_def)
  have a2: "roundDouble (?d + ?d) = 3002399751580331 / 562949953421312"
    by (subst roundDouble_binade [where e = 2]) (simp_all add: pow2_def roundHalfEven_def)
  have a3: "roundDouble (3002399751580331 / 562949953421312 + ?d) = 8"
    by (subst roundDouble_binade [where e = 3]) (simp_all add: pow2_def roundHalfEven_def)
  show ?thesis by (simp only: foldl.simps a1 a2 a3)
qed

lemma mean_three:
  "length xs = 3 \<Longrightarrow> mean rnd xs = rnd (foldl (\<lambda>a b. rnd (a + b)) 0 xs / 3)"
  by (simp add: mean_def)

lemma stdDev_three:
  "length xs = 3 \<Longrightarrow>
     stdDev rnd xs
       = rnd (sqrt (rnd (foldl (\<lambda>acc val. rnd (acc + rnd (rnd (val - mean rnd xs) ^ 2))) 0 xs / 2)))"
  by (simp add: stdDev_def Let_def)

lemma rounded_mean:
  "mean roundDouble
     [3002399751580331 / 1125899906842624, 3002399751580331 / 1125899906842624,
      3002399751580331 / 1125899906842624] = 6004799503160661 / 2251799813685248"
proof -
  have a4: "roundDouble (8 / 3) = 6004799503160661 / 2251799813685248"
    by (subst roundDouble_binade [where e = 1]) (simp_all add: pow2_def roundHalfEven_def)
  let ?ds = "[3002399751580331 / 1125899906842624, 3002399751580331 / 1125899906842624,
      3002399751580331 / 1125899906842624] :: real list"
  have "mean roundDouble ?ds = roundDouble (foldl (\<lambda>a b. roundDouble (a + b)) 0 ?ds / 3)"
    by (rule mean_three) simp
  also have "\<dots> = roundDouble (8 / 3)" by (simp only: rounded_sum)
  also have "\<dots> = 6004799503160661 / 2251799813685248" by (rule a4)
  finally show ?thesis .
qed

lemma rounded_squares:
  "foldl (\<lambda>acc val. roundDouble (acc + roundDouble (roundDouble (val - 6004799503160661 / 2251799813685248) ^ 2))) 0
     [3002399751580331 / 1125899906842624, 3002399751580331 / 1125899906842624,
      3002399751580331 / 1125899906842624] = 3 / 2 ^ 102"
proof -
  let ?d = "3002399751580331 / 1125899906842624 :: real"
  let ?m = "6004799503160661 / 2251799813685248 :: real"
  let ?s = "1 / 2 ^ 102 :: real"
  have b1: "roundDouble (?d - ?m) = 1 / 2 ^ 51"
    by (subst roundDouble_binade [where e = "- 51"]) (simp_all add: pow2_def roundHalfEven_def)
  have b2: "roundDouble ((1 / 2 ^ 51) ^ 2) = ?s"
    by (subst roundDouble_binade [where e = "- 102"])
       (simp_all add: pow2_def roundHalfEven_def power_divide)
  have c1: "roundDouble (0 + ?s) = ?s"
    by (subst roundDouble_binade [where e = "- 102"]) (simp_all add: pow2_def roundHalfEven_def)
  have c2: "roundDouble (?s + ?s) = 1 / 2 ^ 101"
    by (subst roundDouble_binade [where e = "- 101"]) (simp_all add: pow2_def roundHalfEven_def)
  have c3: "roundDouble (1 / 2 ^ 101 + ?s) = 3 / 2 ^ 102"
    by (subst roundDouble_binade [where e = "- 101"]) (simp_all add: pow2_def roundHalfEven_def)
  show ?thesis by (simp only: foldl.simps b1 b2 c1 c2 c3)
qed

lemma rounded_stdDev:
  "stdDev roundDouble
     [3002399751580331 / 1125899906842624, 3002399751580331 / 1125899906842624,
      3002399751580331 / 1125899906842624] = roundDouble (sqrt (3 / 2 ^ 103))"
proof -
  have v: "roundDouble (3 / 2 ^ 102 / 2) = 3 / 2 ^ 103"
    by (subst roundDouble_binade [where e = "- 102"]) (simp_all add: pow2_def roundHalfEven_def)
  let ?ds = "[3002399751580331 / 1125899906842624, 3002399751580331 / 1125899906842624,
      3002399751580331 / 1125899906842624] :: real list"
  have "stdDev roundDouble ?ds
      = roundDouble (sqrt (roundDouble (foldl (\<lambda>acc val. roundDouble (acc
          + roundDouble (roundDouble (val - mean roundDouble ?ds) ^ 2))) 0 ?ds / 2)))"
    by (rule stdDev_three) simp
  also have "\<dots> = roundDouble (sqrt (roundDouble (3 / 2 ^ 102 / 2)))"
    by (simp only: rounded_mean rounded_squares)
  also have "\<dots> = roundDouble (sqrt (3 / 2 ^ 103))" by (simp only: v)
  finally show ?thesis .
qed

lemma rounded_stdDev_nonzero:
  "stdDev roundDouble
     [3002399751580331 / 1125899906842624, 3002399751580331 / 1125899906842624,
      3002399751580331 / 1125899906842624] \<noteq> 0"
proof -
  have "0 < roundDouble (sqrt (3 / 2 ^ 103))"
    by (rule roundDouble_pos) simp
  then show ?thesis unfolding rounded_stdDev by simp
qed

lemma exact_stdDev_zero:
  "stdDev id
     [3002399751580331 / 1125899906842624, 3002399751580331 / 1125899906842624,
      3002399751580331 / 1125899906842624] = 0"
  by (simp add: stdDev_def mean_def)

text \<open>
  C8 as stated fails in double arithmetic: the three differences are equal, so their
  sample standard deviation is 0 in exact arithmetic, but the one \<open>stdDev\<close> computes is
  not 0, and \<open>tTestPaired\<close> returns a finite statistic instead of \<open>Infinity\<close>.
\<close>

theorem paired_constant_differences_finite:
  "pairDiffs roundDouble [8, 8, 8]
     [6004799503160661 / 1125899906842624, 6004799503160661 / 1125899906842624,
      6004799503160661 / 1125899906842624]
   = [3002399751580331 / 1125899906842624, 3002399751580331 / 1125899906842624,
      3002399751580331 / 1125899906842624]
   \<and> stdDev id [3002399751580331 / 1125899906842624, 3002399751580331 / 1125899906842624,
      3002399751580331 / 1125899906842624] = 0
   \<and> stdDev roundDouble [3002399751580331 / 1125899906842624, 3002399751580331 / 1125899906842624,
      3002399751580331 / 1125899906842624] \<noteq> 0
   \<and> tTestPaired roundDouble [8, 8, 8]
     [6004799503160661 / 1125899906842624, 6004799503160661 / 1125899906842624,
      6004799503160661 / 1125899906842624] \<noteq> Some \<lparr>t = Infinity, df = 2, p = 0\<rparr>"
proof -
  have "tTestPaired roundDouble [8, 8, 8]
     [6004799503160661 / 1125899906842624, 6004799503160661 / 1125899906842624,
      6004799503160661 / 1125899906842624] \<noteq> Some \<lparr>t = Infinity, df = 2, p = 0\<rparr>"
    unfolding tTestPaired_def constant_differences Let_def
    using rounded_stdDev_nonzero by simp
  then show ?thesis
    using constant_differences exact_stdDev_zero rounded_stdDev_nonzero by simp
qed

section \<open>The area under the ROC polyline\<close>

lemma relevant_iff:
  "caseNumber c \<in> set (filter (\<lambda>cn. case map_of evs cn of None \<Rightarrow> False | Some e \<Rightarrow> viradsFinal e > 0)
       (map fst evs)) \<longleftrightarrow> hasPositiveFinal evs c"
proof (cases "map_of evs (caseNumber c)")
  case None
  then show ?thesis by (simp add: hasPositiveFinal_def finalScore_def)
next
  case (Some e)
  then have "caseNumber c \<in> fst ` set evs" using key_listed_iff [of "caseNumber c" evs] by simp
  with Some show ?thesis by (simp add: hasPositiveFinal_def finalScore_def)
qed

lemma trapezoid_acc: "trapezoid a ps = a + trapezoid 0 ps"
proof (induction ps arbitrary: a rule: induct_list012)
  case (3 x y zs)
  let ?w = "(fpr y - fpr x) * (tpr x + tpr y) / 2"
  have "trapezoid a (x # y # zs) = a + ?w + trapezoid 0 (y # zs)"
    using "3.IH"(2) [of "a + ?w"] by simp
  moreover have "trapezoid 0 (x # y # zs) = ?w + trapezoid 0 (y # zs)"
    using "3.IH"(2) [of "0 + ?w"] by simp
  ultimately show ?case by simp
qed simp_all

lemma trapezoid_bounds:
  assumes "sorted (map fpr ps)" "\<forall>q \<in> set ps. 0 \<le> tpr q \<and> tpr q \<le> 1" "ps \<noteq> []"
  shows "0 \<le> trapezoid 0 ps \<and> trapezoid 0 ps \<le> fpr (last ps) - fpr (hd ps)"
  using assms
proof (induction ps rule: induct_list012)
  case (3 x y zs)
  let ?w = "(fpr y - fpr x) * (tpr x + tpr y) / 2"
  have xy: "fpr x \<le> fpr y" using "3.prems"(1) by simp
  have tx: "0 \<le> tpr x" "tpr x \<le> 1" and ty: "0 \<le> tpr y" "tpr y \<le> 1"
    using "3.prems"(2) by simp_all
  have h: "0 \<le> (tpr x + tpr y) / 2" "(tpr x + tpr y) / 2 \<le> 1" using tx ty by simp_all
  have w0: "0 \<le> ?w"
    using xy h(1) mult_nonneg_nonneg [of "fpr y - fpr x" "(tpr x + tpr y) / 2"] by simp
  have w1: "?w \<le> fpr y - fpr x"
    using xy h(2) mult_left_le [of "(tpr x + tpr y) / 2" "fpr y - fpr x"] by simp
  have ih: "0 \<le> trapezoid 0 (y # zs) \<and> trapezoid 0 (y # zs) \<le> fpr (last (y # zs)) - fpr y"
    using "3.IH"(2) "3.prems" by simp
  have eq: "trapezoid 0 (x # y # zs) = ?w + trapezoid 0 (y # zs)"
    using trapezoid_acc [of "0 + ?w" "y # zs"] by simp
  show ?case unfolding eq using w0 w1 ih by simp
qed simp_all

lemma set_foldl_insertPoint: "set (foldl insertPoint acc xs) = set acc \<union> set xs"
  by (induction xs arbitrary: acc) (auto simp: insertPoint_def)

lemma set_uniquePoints: "set (uniquePoints xs) = set xs"
  by (simp add: uniquePoints_def set_foldl_insertPoint)

lemma ratio_unit:
  assumes "0 \<le> a" "0 \<le> b"
  shows "0 \<le> real_of_int a / real_of_int (if a + b = 0 then 1 else a + b)"
    and "real_of_int a / real_of_int (if a + b = 0 then 1 else a + b) \<le> 1"
  using assms by (auto simp: divide_le_eq)

lemma rocPointAt_unit:
  "0 \<le> fpr (rocPointAt evs cs k) \<and> fpr (rocPointAt evs cs k) \<le> 1
   \<and> 0 \<le> tpr (rocPointAt evs cs k) \<and> tpr (rocPointAt evs cs k) \<le> 1"
proof -
  let ?m = "getMatrixForEvaluations evs cs k"
  have nn: "0 \<le> tp ?m" "0 \<le> fn ?m" "0 \<le> tn ?m" "0 \<le> fp ?m"
    by (simp_all add: getMatrix_cells cellCount_nonneg)
  show ?thesis
    using ratio_unit [OF nn(1) nn(2)] ratio_unit [OF nn(3) nn(4)]
    by (simp add: rocPointAt_def Let_def)
qed

lemma polyline_unit:
  assumes "\<forall>q \<in> set rps. 0 \<le> fpr q \<and> fpr q \<le> 1 \<and> 0 \<le> tpr q \<and> tpr q \<le> 1" "rps \<noteq> []"
  shows "0 \<le> trapezoid 0 (sort_key fpr (uniquePoints rps))
       \<and> trapezoid 0 (sort_key fpr (uniquePoints rps)) \<le> 1"
proof -
  let ?ps = "sort_key fpr (uniquePoints rps)"
  have s: "set ?ps = set rps" by (simp add: set_uniquePoints)
  then have ne: "?ps \<noteq> []" using assms(2) by (metis set_empty)
  have "sorted (map fpr ?ps)" by (rule sorted_sort_key)
  moreover have "\<forall>q \<in> set ?ps. 0 \<le> tpr q \<and> tpr q \<le> 1" using assms(1) s by simp
  ultimately have b: "0 \<le> trapezoid 0 ?ps \<and> trapezoid 0 ?ps \<le> fpr (last ?ps) - fpr (hd ?ps)"
    using ne by (rule trapezoid_bounds)
  have "last ?ps \<in> set rps" "hd ?ps \<in> set rps" using ne s last_in_set hd_in_set by blast+
  then have "fpr (last ?ps) \<le> 1" "0 \<le> fpr (hd ?ps)" using assms(1) by blast+
  with b show ?thesis by linarith
qed

lemma calculateAUC_alt:
  "calculateAUC evs cs =
     (let sub = evaluatedSubset evs cs in
      if sub = [] then 0.5
      else if filter isCVMIPositive sub = [] \<or> length (filter isCVMIPositive sub) = length sub then 0.5
      else trapezoid 0 (sort_key fpr (uniquePoints
             ([\<lparr>fpr = 0, tpr = 0\<rparr>] @ map (rocPointAt evs sub) [2, 3, 4, 5] @ [\<lparr>fpr = 1, tpr = 1\<rparr>]))))"
proof -
  have rel: "filter (\<lambda>c. caseNumber c \<in> set (filter (\<lambda>cn. case map_of evs cn of None \<Rightarrow> False
                | Some e \<Rightarrow> viradsFinal e > 0) (map fst evs))) cs = evaluatedSubset evs cs"
    unfolding evaluatedSubset_def by (rule filter_cong) (simp_all only: relevant_iff)
  show ?thesis
    unfolding calculateAUC_def rel Let_def by auto
qed

text \<open>
  C6. \<open>calculateAUC\<close> returns a value between 0 and 1, both included. When no case of
  the list has a final score above 0, or none of those cases is positive, or none is
  negative, it returns 0.5.
\<close>

theorem auc_unit_interval:
  "0 \<le> calculateAUC evs cs \<and> calculateAUC evs cs \<le> 1
   \<and> (evaluatedSubset evs cs = [] \<or> filter isCVMIPositive (evaluatedSubset evs cs) = []
        \<or> filter (\<lambda>c. \<not> isCVMIPositive c) (evaluatedSubset evs cs) = []
      \<longrightarrow> calculateAUC evs cs = 0.5)"
proof -
  let ?sub = "evaluatedSubset evs cs"
  let ?rps = "[\<lparr>fpr = 0, tpr = 0\<rparr>] @ map (rocPointAt evs ?sub) [2, 3, 4, 5] @ [\<lparr>fpr = 1, tpr = 1\<rparr>]"
  have "\<forall>q \<in> set ?rps. 0 \<le> fpr q \<and> fpr q \<le> 1 \<and> 0 \<le> tpr q \<and> tpr q \<le> 1"
    using rocPointAt_unit [of evs ?sub] by auto
  then have poly: "0 \<le> trapezoid 0 (sort_key fpr (uniquePoints ?rps))
       \<and> trapezoid 0 (sort_key fpr (uniquePoints ?rps)) \<le> 1"
    by (rule polyline_unit) simp
  have neg: "filter (\<lambda>c. \<not> isCVMIPositive c) ?sub = [] \<longleftrightarrow> length (filter isCVMIPositive ?sub) = length ?sub"
    by (metis filter_True filter_empty_conv filter_id_conv length_filter_less nat_less_le)
  show ?thesis
    unfolding calculateAUC_alt Let_def using poly neg by auto
qed

theorem auc_unit_interval_witness:
  "calculateAUC [(1, DEFAULT_EVAL\<lparr>viradsFinal := 5\<rparr>), (2, DEFAULT_EVAL)]
     [parseCase 1 T3, parseCase 2 Ta] = 0.5"
  using auc_unit_interval
    [of "[(1, DEFAULT_EVAL\<lparr>viradsFinal := 5\<rparr>), (2, DEFAULT_EVAL)]" "[parseCase 1 T3, parseCase 2 Ta]"]
  by (simp add: evaluatedSubset_def hasPositiveFinal_def finalScore_def parseCase_def
      CVMI_STAGES_def DEFAULT_EVAL_def)

lemma cellCount_cong:
  assumes "\<forall>c \<in> set cs. cellOf evs k c = Some (g c)"
  shows "cellCount evs k cell cs = int (length (filter (\<lambda>c. g c = cell) cs))"
proof -
  have "filter (\<lambda>c. cellOf evs k c = Some cell) cs = filter (\<lambda>c. g c = cell) cs"
    using assms by (intro filter_cong) auto
  then show ?thesis by (simp add: cellCount_def)
qed

lemma separated_rocPoint:
  assumes sep: "list_all (\<lambda>c. finalScore evs c = Some (if isCVMIPositive c then 5 else 1)) sub"
      and pos: "filter isCVMIPositive sub \<noteq> []"
      and neg: "filter (\<lambda>c. \<not> isCVMIPositive c) sub \<noteq> []"
      and k: "2 \<le> k" "k \<le> 5"
  shows "rocPointAt evs sub k = \<lparr>fpr = 0, tpr = 1\<rparr>"
proof -
  let ?g = "\<lambda>c. if isCVMIPositive c then TruePositive else TrueNegative"
  let ?m = "getMatrixForEvaluations evs sub k"
  have cells: "\<forall>c \<in> set sub. cellOf evs k c = Some (?g c)"
    using sep k by (auto simp: list_all_iff cellOf_def)
  have tp: "tp ?m = int (length (filter isCVMIPositive sub))"
    unfolding getMatrix_cells cellCount_cong [OF cells]
    by (simp cong: filter_cong)
  have tn: "tn ?m = int (length (filter (\<lambda>c. \<not> isCVMIPositive c) sub))"
    unfolding getMatrix_cells cellCount_cong [OF cells]
    by (simp cong: filter_cong)
  have fn: "fn ?m = 0" and fp: "fp ?m = 0"
    unfolding getMatrix_cells cellCount_cong [OF cells] by simp_all
  have tpp: "0 < tp ?m" using pos unfolding tp by simp
  have tnp: "0 < tn ?m" using neg unfolding tn by simp
  show ?thesis
    using tpp tnp fn fp by (simp add: rocPointAt_def Let_def)
qed

lemma separated_polyline:
  "trapezoid 0 (sort_key fpr (uniquePoints
      ([\<lparr>fpr = 0, tpr = 0\<rparr>] @ map (\<lambda>k. \<lparr>fpr = 0, tpr = 1\<rparr>) [2, 3, 4, 5::int] @ [\<lparr>fpr = 1, tpr = 1\<rparr>]))) = 1"
  by (simp add: uniquePoints_def insertPoint_def)

text \<open>
  C5. When every evaluated positive case of the list has the final score 5 and every
  evaluated negative case the final score 1, and at least one positive and one negative
  case are evaluated, \<open>calculateAUC\<close> returns 1.
\<close>

theorem perfect_separation_auc:
  assumes "list_all (\<lambda>c. finalScore evs c = Some (if isCVMIPositive c then 5 else 1))
             (evaluatedSubset evs cs)"
      and "filter isCVMIPositive (evaluatedSubset evs cs) \<noteq> []"
      and "filter (\<lambda>c. \<not> isCVMIPositive c) (evaluatedSubset evs cs) \<noteq> []"
  shows "calculateAUC evs cs = 1"
proof -
  let ?sub = "evaluatedSubset evs cs"
  have pts: "map (rocPointAt evs ?sub) [2, 3, 4, 5] = map (\<lambda>k. \<lparr>fpr = 0, tpr = 1\<rparr>) [2, 3, 4, 5::int]"
    using separated_rocPoint [OF assms] by simp
  have ne: "?sub \<noteq> []" using assms(2) by auto
  have notall: "length (filter isCVMIPositive ?sub) \<noteq> length ?sub"
    using assms(3) by (metis filter_True filter_empty_conv filter_id_conv length_filter_less nat_less_le)
  show ?thesis
    unfolding calculateAUC_alt Let_def pts separated_polyline
    using ne notall assms(2) by simp
qed

theorem perfect_separation_auc_witness:
  "calculateAUC [(1, DEFAULT_EVAL\<lparr>viradsFinal := 5\<rparr>), (2, DEFAULT_EVAL\<lparr>viradsFinal := 1\<rparr>), (3, DEFAULT_EVAL)]
     [parseCase 1 T3, parseCase 2 Ta, parseCase 3 T2, parseCase 4 T1] = 1"
  using perfect_separation_auc
    [of "[(1, DEFAULT_EVAL\<lparr>viradsFinal := 5\<rparr>), (2, DEFAULT_EVAL\<lparr>viradsFinal := 1\<rparr>), (3, DEFAULT_EVAL)]"
        "[parseCase 1 T3, parseCase 2 Ta, parseCase 3 T2, parseCase 4 T1]"]
  by (simp add: evaluatedSubset_def hasPositiveFinal_def finalScore_def parseCase_def
      CVMI_STAGES_def DEFAULT_EVAL_def)

section \<open>Readers without evaluations\<close>

lemma evaluatedKeys_nonempty_hasEvaluated:
  assumes "evaluatedKeysOf (userEvalsOf E u) \<noteq> []"
  shows "hasEvaluated E u"
proof -
  from assms obtain k where k: "k \<in> set (evaluatedKeysOf (userEvalsOf E u))"
    by (cases "evaluatedKeysOf (userEvalsOf E u)") auto
  then obtain e where "map_of (userEvalsOf E u) k = Some e" "viradsFinal e > 0"
    by (auto simp: evaluatedKeysOf_def split: option.splits)
  then have "(k, e) \<in> set (userEvalsOf E u)" "viradsFinal e > 0"
    by (auto dest: map_of_SomeD)
  then show ?thesis by (auto simp: hasEvaluated_def list_ex_iff)
qed

lemma analyzeUser_not_evaluated:
  assumes "\<not> hasEvaluated E u"
  shows "analyzeUser cs E k prev pct u = defaultRow u"
proof -
  from assms have "evaluatedKeysOf (userEvalsOf E u) = []"
    using evaluatedKeys_nonempty_hasEvaluated by blast
  then show ?thesis by (simp add: analyzeUser_def defaultRow_def Let_def)
qed

lemma evaluatedCount_positive:
  "evaluatedCount (analyzeUser cs E k prev pct u) > 0 \<longleftrightarrow> evaluatedKeysOf (userEvalsOf E u) \<noteq> []"
  by (simp add: analyzeUser_def Let_def)

lemma filter_map_filter:
  "(\<And>x. P (f x) \<Longrightarrow> Q x) \<Longrightarrow> filter P (map f (filter Q xs)) = filter P (map f xs)"
  by (induction xs) auto

lemma averageMetrics_filter:
  "averageMetrics (map (analyzeUser cs E k prev pct) (filter (hasEvaluated E) us))
     = averageMetrics (map (analyzeUser cs E k prev pct) us)"
proof -
  have "filter (\<lambda>r. evaluatedCount r > 0) (map (analyzeUser cs E k prev pct) (filter (hasEvaluated E) us))
      = filter (\<lambda>r. evaluatedCount r > 0) (map (analyzeUser cs E k prev pct) us)"
    by (rule filter_map_filter)
       (simp add: evaluatedCount_positive evaluatedKeys_nonempty_hasEvaluated)
  then show ?thesis by (simp add: averageMetrics_def)
qed

text \<open>
  C10. A reader none of whose evaluations has a final score above 0 gets the default
  row: evaluatedCount 0, the four final and the four partial metrics 0, finalAuc 0.5 and
  both p-values 1. The rows of \<open>analysisData\<close> are these default rows for such readers
  and the computed rows for the others, and the group averages are the same as if such
  readers were not in the list of users.
\<close>

theorem unevaluated_reader_default_row:
  "(\<not> hasEvaluated E u \<longrightarrow> analyzeUser cs E k prev pct u = defaultRow u)
   \<and> fst (analysisData us cs E k prev pct)
       = map (\<lambda>u. if hasEvaluated E u then analyzeUser cs E k prev pct u else defaultRow u) us
   \<and> snd (analysisData us cs E k prev pct)
       = snd (analysisData (filter (hasEvaluated E) us) cs E k prev pct)"
  using analyzeUser_not_evaluated [of E]
  by (simp add: analysisData_def Let_def averageMetrics_filter)

theorem unevaluated_reader_default_row_witness:
  "analyzeUser [parseCase 1 T2] [(''r1'', [(1, DEFAULT_EVAL)])] 4 (1/2) 50 reader1
     = \<lparr>user = reader1, evaluatedCount = 0,
      finalMetrics = \<lparr>sensitivity = 0, specificity = 0, ppv = 0, npv = 0\<rparr>,
      partialMetrics = \<lparr>sensitivity = 0, specificity = 0, ppv = 0, npv = 0\<rparr>,
      finalAuc = 0.5, pValueSensitivity = 1, pValueSpecificity = 1\<rparr>"
  using unevaluated_reader_default_row [of "[(''r1'', [(1, DEFAULT_EVAL)])]" reader1 "[parseCase 1 T2]" 4 "1/2" 50]
  by (simp add: hasEvaluated_def userEvalsOf_def reader1_def DEFAULT_EVAL_def defaultRow_def)

end
